theory Spec2Isabelle
  imports Main "HOL-Library.Multiset"
begin

section \<open>Bulk wizard: subtitle analysis and the ready count\<close>

text \<open>
  The bulk wizard receives a subtitle analysis of a show from the API. The components
  \<^verbatim>\<open>EpisodePreviewStep\<close>, \<^verbatim>\<open>BulkDualSubtitleWizard\<close> and
  \<^verbatim>\<open>LanguageDiscoveryStep\<close> read the following fields of it. Optional fields
  (\<^verbatim>\<open>existing_dual_subtitles?\<close>, \<^verbatim>\<open>dual_languages?\<close>) are options; the object
  \<^verbatim>\<open>language_availability\<close>, indexed by language code, is a map. JavaScript numbers
  that count episodes are integers.
\<close>

record DualSubInfo =
  dual_languages :: "string list option"

record EpisodeDetail =
  episode_id :: string
  existing_dual_subtitles :: "DualSubInfo list option"

record LanguageAvailability =
  episodes_available :: int
  episode_details :: "EpisodeDetail list"

record SubtitleAnalysis =
  total_episodes :: int
  language_availability :: "string \<rightharpoonup> LanguageAvailability"

record Stats =
  ready :: int
  needsAttention :: int
  willSkip :: int
  alreadyExists :: int

text \<open>
  The callback given to \<^verbatim>\<open>existing_dual_subtitles?.some\<close>: a dual subtitle without
  \<^verbatim>\<open>dual_languages\<close>, or with fewer than two of them, does not match; otherwise its
  first two entries are compared with the requested pair in both orders.
\<close>

definition dualSubMatches :: "string \<Rightarrow> string \<Rightarrow> DualSubInfo \<Rightarrow> bool" where
  "dualSubMatches primaryLanguage secondaryLanguage dualSub =
     (case dual_languages dualSub of
        None \<Rightarrow> False
      | Some langs \<Rightarrow>
          (case langs of
             lang1 # lang2 # _ \<Rightarrow>
               (lang1 = primaryLanguage \<and> lang2 = secondaryLanguage) \<or>
               (lang1 = secondaryLanguage \<and> lang2 = primaryLanguage)
           | _ \<Rightarrow> False))"

text \<open>The filter predicate of \<^verbatim>\<open>episodesWithExistingDual\<close>; a missing list is falsy.\<close>

definition hasExistingDual :: "string \<Rightarrow> string \<Rightarrow> EpisodeDetail \<Rightarrow> bool" where
  "hasExistingDual primaryLanguage secondaryLanguage ep =
     (case existing_dual_subtitles ep of
        None \<Rightarrow> False
      | Some subs \<Rightarrow> list_ex (dualSubMatches primaryLanguage secondaryLanguage) subs)"

definition episodesWithBoth :: "LanguageAvailability \<Rightarrow> LanguageAvailability \<Rightarrow> EpisodeDetail list" where
  "episodesWithBoth primaryAvail secondaryAvail =
     filter (\<lambda>ep. list_ex (\<lambda>secEp. episode_id secEp = episode_id ep) (episode_details secondaryAvail))
       (episode_details primaryAvail)"

definition episodesWithExistingDual ::
  "string \<Rightarrow> string \<Rightarrow> LanguageAvailability \<Rightarrow> LanguageAvailability \<Rightarrow> EpisodeDetail list" where
  "episodesWithExistingDual primaryLanguage secondaryLanguage primaryAvail secondaryAvail =
     filter (hasExistingDual primaryLanguage secondaryLanguage)
       (episodesWithBoth primaryAvail secondaryAvail)"

text \<open>\<^verbatim>\<open>stats\<close> of \<^verbatim>\<open>EpisodePreviewStep\<close>.\<close>

definition stats :: "SubtitleAnalysis \<Rightarrow> string \<Rightarrow> string \<Rightarrow> Stats" where
  "stats analysis primaryLanguage secondaryLanguage =
     (case language_availability analysis primaryLanguage of
        None \<Rightarrow> \<lparr>ready = 0, needsAttention = 0, willSkip = total_episodes analysis, alreadyExists = 0\<rparr>
      | Some primaryAvail \<Rightarrow>
          (case language_availability analysis secondaryLanguage of
             None \<Rightarrow> \<lparr>ready = 0, needsAttention = 0, willSkip = total_episodes analysis, alreadyExists = 0\<rparr>
           | Some secondaryAvail \<Rightarrow>
               (let both = episodesWithBoth primaryAvail secondaryAvail;
                    existing = episodesWithExistingDual primaryLanguage secondaryLanguage primaryAvail secondaryAvail;
                    alreadyExists = int (length existing);
                    ready = int (length both) - alreadyExists;
                    maxAvailable = max (episodes_available primaryAvail) (episodes_available secondaryAvail);
                    needsAttention = maxAvailable - int (length both);
                    willSkip = total_episodes analysis - maxAvailable
                in \<lparr>ready = ready, needsAttention = needsAttention, willSkip = willSkip,
                     alreadyExists = alreadyExists\<rparr>)))"

text \<open>
  \<^verbatim>\<open>readyCount\<close> of the wizard footer. The wizard's analysis is null until it is loaded,
  and an empty language string is falsy.
\<close>

definition readyCount :: "SubtitleAnalysis option \<Rightarrow> string \<Rightarrow> string \<Rightarrow> int" where
  "readyCount analysis primaryLanguage secondaryLanguage =
     (case analysis of
        None \<Rightarrow> 0
      | Some a \<Rightarrow>
          if primaryLanguage = [] \<or> secondaryLanguage = [] then 0
          else
            (case language_availability a primaryLanguage of
               None \<Rightarrow> 0
             | Some primaryAvail \<Rightarrow>
                 (case language_availability a secondaryLanguage of
                    None \<Rightarrow> 0
                  | Some secondaryAvail \<Rightarrow>
                      int (length (episodesWithBoth primaryAvail secondaryAvail)) -
                      int (length (episodesWithExistingDual primaryLanguage secondaryLanguage
                                     primaryAvail secondaryAvail)))))"

text \<open>
  \<^verbatim>\<open>previewData.compatible\<close> of \<^verbatim>\<open>LanguageDiscoveryStep\<close>: null unless both languages
  are chosen; a language absent from the analysis counts as 0 episodes.
\<close>

definition availableOrZero :: "SubtitleAnalysis \<Rightarrow> string \<Rightarrow> int" where
  "availableOrZero analysis lang =
     (case language_availability analysis lang of None \<Rightarrow> 0 | Some avail \<Rightarrow> episodes_available avail)"

definition compatible :: "SubtitleAnalysis \<Rightarrow> string \<Rightarrow> string \<Rightarrow> int option" where
  "compatible analysis primaryLanguage secondaryLanguage =
     (if primaryLanguage \<noteq> [] \<and> secondaryLanguage \<noteq> []
      then Some (min (availableOrZero analysis primaryLanguage) (availableOrZero analysis secondaryLanguage))
      else None)"

text \<open>
  The claims' own wording of the worklist, kept apart from the two computations above:
  the episodes listed for a language (none when the analysis does not know the language),
  the episodes listed for both languages, and those of them that do not already hold a
  dual subtitle for the unordered pair of languages.
\<close>

definition listedEpisodes :: "SubtitleAnalysis \<Rightarrow> string \<Rightarrow> EpisodeDetail list" where
  "listedEpisodes analysis lang =
     (case language_availability analysis lang of None \<Rightarrow> [] | Some avail \<Rightarrow> episode_details avail)"

definition inBothLists :: "SubtitleAnalysis \<Rightarrow> string \<Rightarrow> string \<Rightarrow> EpisodeDetail list" where
  "inBothLists analysis p s =
     filter (\<lambda>ep. episode_id ep \<in> episode_id ` set (listedEpisodes analysis s)) (listedEpisodes analysis p)"

definition holdsDualFor :: "string \<Rightarrow> string \<Rightarrow> EpisodeDetail \<Rightarrow> bool" where
  "holdsDualFor p s ep =
     list_ex (\<lambda>d. case dual_languages d of
                     Some (l1 # l2 # _) \<Rightarrow> {l1, l2} = {p, s}
                   | _ \<Rightarrow> False)
       (case existing_dual_subtitles ep of None \<Rightarrow> [] | Some subs \<Rightarrow> subs)"

definition worklist :: "SubtitleAnalysis \<Rightarrow> string \<Rightarrow> string \<Rightarrow> EpisodeDetail list" where
  "worklist analysis p s = filter (\<lambda>ep. \<not> holdsDualFor p s ep) (inBothLists analysis p s)"

text \<open>
  A show of twelve episodes: English subtitles for episodes 1 to 11, Japanese ones for
  episodes 1 to 9 and 12, so nine episodes have both; episode 1 already holds an
  English-Japanese dual subtitle and episode 2 a Japanese-English one.
\<close>

definition plainEpisode :: "string \<Rightarrow> EpisodeDetail" where
  "plainEpisode i = \<lparr>episode_id = i, existing_dual_subtitles = None\<rparr>"

definition dualEpisode :: "string \<Rightarrow> string \<Rightarrow> string \<Rightarrow> EpisodeDetail" where
  "dualEpisode i l1 l2 =
     \<lparr>episode_id = i, existing_dual_subtitles = Some [\<lparr>dual_languages = Some [l1, l2]\<rparr>]\<rparr>"

definition twelveEpisodeShow :: SubtitleAnalysis where
  "twelveEpisodeShow =
     \<lparr>total_episodes = 12,
      language_availability =
        [''en'' \<mapsto>
           \<lparr>episodes_available = 11,
            episode_details =
              dualEpisode ''1'' ''en'' ''ja'' # dualEpisode ''2'' ''ja'' ''en'' #
              map plainEpisode [''3'', ''4'', ''5'', ''6'', ''7'', ''8'', ''9'', ''10'', ''11'']\<rparr>,
         ''ja'' \<mapsto>
           \<lparr>episodes_available = 10,
            episode_details =
              dualEpisode ''1'' ''en'' ''ja'' # dualEpisode ''2'' ''ja'' ''en'' #
              map plainEpisode [''3'', ''4'', ''5'', ''6'', ''7'', ''8'', ''9'', ''12'']\<rparr>]\<rparr>"

text \<open>
  A show of three episodes: English subtitles for episodes 1 and 2, Japanese ones for
  episodes 2 and 3, no dual subtitle anywhere.
\<close>

definition threeEpisodeShow :: SubtitleAnalysis where
  "threeEpisodeShow =
     \<lparr>total_episodes = 3,
      language_availability =
        [''en'' \<mapsto> \<lparr>episodes_available = 2, episode_details = map plainEpisode [''1'', ''2'']\<rparr>,
         ''ja'' \<mapsto> \<lparr>episodes_available = 2, episode_details = map plainEpisode [''2'', ''3'']\<rparr>]\<rparr>"

section \<open>JavaScript strings\<close>

text \<open>
  A JavaScript string is a sequence of UTF-16 code units. A code unit is an integer here
  (from 0 to 65535 in a string of the program; the functions below are defined on every
  integer and never compute with a unit, except to add 32 to one of A to Z), and
  \<open>js\<close> gives the code units of a literal written in ASCII.
\<close>

type_synonym codeunit = int

type_synonym jsstring = "codeunit list"

definition js :: "string \<Rightarrow> jsstring" where
  "js s = map of_char s"

section \<open>Regular expressions as JavaScript runs them\<close>

text \<open>
  The two regular expressions of the sources are embedded as terms of a small syntax and
  run by a backtracking matcher. Neither has a flag, so a character class is a set of
  code units: \<open>Alpha\<close> is \<^verbatim>\<open>[a-zA-Z]\<close>, \<open>Digit\<close> is \<^verbatim>\<open>\d\<close> and \<open>NotDot\<close>
  is \<^verbatim>\<open>[^.]\<close>. \<open>run r (s, k)\<close> lists, in the order in which a backtracking engine
  tries them, the ways \<open>r\<close> can match a prefix of \<open>s\<close>: each is the rest of the
  input with the captures made so far (the latest capture of a group first). Quantifiers
  are greedy, so the longer repetition and the present option come first.
  \<open>Rep lo hi c\<close> is \<^verbatim>\<open>c{lo,hi}\<close> on a character class, \<open>Rep 1 None c\<close> is
  \<^verbatim>\<open>c+\<close>, \<open>Opt\<close> is \<^verbatim>\<open>(?:...)?\<close>, \<open>Grp\<close> a capturing group, \<open>Eos\<close> is \<^verbatim>\<open>$\<close>
  without the multiline flag.
\<close>

datatype cls = Lit codeunit | Alpha | Digit | NotDot

fun inCls :: "cls \<Rightarrow> codeunit \<Rightarrow> bool" where
  "inCls (Lit c) x = (x = c)"
| "inCls Alpha x = ((97 \<le> x \<and> x \<le> 122) \<or> (65 \<le> x \<and> x \<le> 90))"
| "inCls Digit x = (48 \<le> x \<and> x \<le> 57)"
| "inCls NotDot x = (x \<noteq> 46)"

datatype re =
    Eps
  | Atom cls
  | Seq re re
  | Alt re re
  | Opt re
  | Rep nat "nat option" cls
  | Grp nat re
  | Eos

type_synonym caps = "(nat \<times> jsstring) list"

fun run :: "re \<Rightarrow> jsstring \<times> caps \<Rightarrow> (jsstring \<times> caps) list" where
  "run Eps st = [st]"
| "run (Atom c) (s, k) = (case s of [] \<Rightarrow> [] | x # xs \<Rightarrow> if inCls c x then [(xs, k)] else [])"
| "run (Seq a b) st = concat (map (run b) (run a st))"
| "run (Alt a b) st = run a st @ run b st"
| "run (Opt a) st = run a st @ [st]"
| "run (Rep lo hi c) (s, k) =
     (let avail = length (takeWhile (inCls c) s);
          top = (case hi of None \<Rightarrow> avail | Some h \<Rightarrow> min h avail)
      in map (\<lambda>i. (drop i s, k)) (rev [lo..<Suc top]))"
| "run (Grp i a) (s, k) =
     map (\<lambda>(s', k'). (s', (i, take (length s - length s') s) # k')) (run a (s, k))"
| "run Eos (s, k) = (if s = [] then [(s, k)] else [])"

text \<open>
  \<^verbatim>\<open>String.prototype.match\<close> without the global flag: the first start index, from the
  left, at which the expression matches, and there the first way the engine finds.
\<close>

fun regexMatch :: "re \<Rightarrow> jsstring \<Rightarrow> caps option" where
  "regexMatch r [] = (case run r ([], []) of [] \<Rightarrow> None | (_, k) # _ \<Rightarrow> Some k)"
| "regexMatch r (c # cs) =
     (case run r (c # cs, []) of [] \<Rightarrow> regexMatch r cs | (_, k) # _ \<Rightarrow> Some k)"

fun lits :: "jsstring \<Rightarrow> re" where
  "lits [] = Eps"
| "lits (c # cs) = Seq (Atom (Lit c)) (lits cs)"

section \<open>SubtitleManager: parseDualLanguages\<close>

text \<open>
  \<^verbatim>\<open>/\.dual\.([a-zA-Z]{2,3}(?:-[a-zA-Z]{2,4})?)-([a-zA-Z]{2,3}(?:-[a-zA-Z]{2,4})?)\.[^.]+$/\<close>
\<close>

definition langCodeRe :: re where
  "langCodeRe = Seq (Rep 2 (Some 3) Alpha) (Opt (Seq (lits (js ''-'')) (Rep 2 (Some 4) Alpha)))"

definition dualRe :: re where
  "dualRe =
     Seq (lits (js ''.dual.''))
       (Seq (Grp 1 langCodeRe)
         (Seq (lits (js ''-''))
           (Seq (Grp 2 langCodeRe)
             (Seq (lits (js ''.''))
               (Seq (Rep 1 None NotDot) Eos)))))"

definition parseDualLanguages :: "jsstring \<Rightarrow> (jsstring \<times> jsstring) option" where
  "parseDualLanguages fileName =
     (case regexMatch dualRe fileName of
        None \<Rightarrow> None
      | Some k \<Rightarrow>
          (case (map_of k 1, map_of k 2) of
             (Some lang1, Some lang2) \<Rightarrow> Some (lang1, lang2)
           | _ \<Rightarrow> None))"

text \<open>The naming convention \<^verbatim>\<open><base>.dual.<primary>-<secondary>.<ext>\<close>.\<close>

definition dualFileName :: "string \<Rightarrow> string \<Rightarrow> string \<Rightarrow> string \<Rightarrow> string" where
  "dualFileName base primary secondary ext =
     base @ ''.dual.'' @ primary @ ''-'' @ secondary @ ''.'' @ ext"

section \<open>data/languages.ts\<close>

text \<open>
  Of \<^verbatim>\<open>LanguageInfo\<close> the functions below read \<^verbatim>\<open>code\<close> and the optional
  \<^verbatim>\<open>commonCodes\<close>; the display names are left out.
\<close>

record LanguageInfo =
  code :: jsstring
  commonCodes :: "jsstring list option"

definition COMPREHENSIVE_LANGUAGES :: "LanguageInfo list" where
  "COMPREHENSIVE_LANGUAGES =
     [\<lparr>code = js ''en'', commonCodes = Some (map js [''en'', ''eng'', ''english''])\<rparr>,
      \<lparr>code = js ''zh'', commonCodes = Some (map js [''zh'', ''zh-cn'', ''zh-hans'', ''zhs'', ''chi'', ''chinese'', ''chs''])\<rparr>,
      \<lparr>code = js ''zh-TW'', commonCodes = Some (map js [''zh-tw'', ''zh-hk'', ''zh-hant'', ''zht'', ''cht'', ''tc'', ''traditional''])\<rparr>,
      \<lparr>code = js ''hi'', commonCodes = Some (map js [''hi'', ''hin'', ''hindi''])\<rparr>,
      \<lparr>code = js ''es'', commonCodes = Some (map js [''es'', ''spa'', ''spanish'', ''espanol''])\<rparr>,
      \<lparr>code = js ''fr'', commonCodes = Some (map js [''fr'', ''fre'', ''fra'', ''french'', ''francais''])\<rparr>,
      \<lparr>code = js ''ar'', commonCodes = Some (map js [''ar'', ''ara'', ''arabic''])\<rparr>,
      \<lparr>code = js ''bn'', commonCodes = Some (map js [''bn'', ''ben'', ''bengali''])\<rparr>,
      \<lparr>code = js ''pt'', commonCodes = Some (map js [''pt'', ''por'', ''portuguese''])\<rparr>,
      \<lparr>code = js ''ru'', commonCodes = Some (map js [''ru'', ''rus'', ''russian''])\<rparr>,
      \<lparr>code = js ''ja'', commonCodes = Some (map js [''ja'', ''jp'', ''jpn'', ''japanese''])\<rparr>,
      \<lparr>code = js ''de'', commonCodes = Some (map js [''de'', ''ger'', ''deu'', ''german'', ''deutsch''])\<rparr>,
      \<lparr>code = js ''ko'', commonCodes = Some (map js [''ko'', ''kr'', ''kor'', ''korean''])\<rparr>,
      \<lparr>code = js ''it'', commonCodes = Some (map js [''it'', ''ita'', ''italian''])\<rparr>,
      \<lparr>code = js ''tr'', commonCodes = Some (map js [''tr'', ''tur'', ''turkish''])\<rparr>,
      \<lparr>code = js ''vi'', commonCodes = Some (map js [''vi'', ''vie'', ''vietnamese''])\<rparr>,
      \<lparr>code = js ''pl'', commonCodes = Some (map js [''pl'', ''pol'', ''polish''])\<rparr>,
      \<lparr>code = js ''uk'', commonCodes = Some (map js [''uk'', ''ukr'', ''ukrainian''])\<rparr>,
      \<lparr>code = js ''nl'', commonCodes = Some (map js [''nl'', ''dut'', ''nld'', ''dutch''])\<rparr>,
      \<lparr>code = js ''fa'', commonCodes = Some (map js [''fa'', ''per'', ''fas'', ''persian'', ''farsi''])\<rparr>,
      \<lparr>code = js ''sv'', commonCodes = None\<rparr>,
      \<lparr>code = js ''no'', commonCodes = None\<rparr>,
      \<lparr>code = js ''da'', commonCodes = None\<rparr>,
      \<lparr>code = js ''fi'', commonCodes = None\<rparr>,
      \<lparr>code = js ''is'', commonCodes = None\<rparr>,
      \<lparr>code = js ''cs'', commonCodes = None\<rparr>,
      \<lparr>code = js ''sk'', commonCodes = None\<rparr>,
      \<lparr>code = js ''hu'', commonCodes = None\<rparr>,
      \<lparr>code = js ''ro'', commonCodes = None\<rparr>,
      \<lparr>code = js ''bg'', commonCodes = None\<rparr>,
      \<lparr>code = js ''hr'', commonCodes = None\<rparr>,
      \<lparr>code = js ''sr'', commonCodes = None\<rparr>,
      \<lparr>code = js ''bs'', commonCodes = None\<rparr>,
      \<lparr>code = js ''sl'', commonCodes = None\<rparr>,
      \<lparr>code = js ''mk'', commonCodes = None\<rparr>,
      \<lparr>code = js ''sq'', commonCodes = None\<rparr>,
      \<lparr>code = js ''et'', commonCodes = None\<rparr>,
      \<lparr>code = js ''lv'', commonCodes = None\<rparr>,
      \<lparr>code = js ''lt'', commonCodes = None\<rparr>,
      \<lparr>code = js ''mt'', commonCodes = None\<rparr>,
      \<lparr>code = js ''ga'', commonCodes = None\<rparr>,
      \<lparr>code = js ''cy'', commonCodes = None\<rparr>,
      \<lparr>code = js ''eu'', commonCodes = None\<rparr>,
      \<lparr>code = js ''ca'', commonCodes = None\<rparr>,
      \<lparr>code = js ''gl'', commonCodes = None\<rparr>,
      \<lparr>code = js ''th'', commonCodes = None\<rparr>,
      \<lparr>code = js ''my'', commonCodes = None\<rparr>,
      \<lparr>code = js ''km'', commonCodes = None\<rparr>,
      \<lparr>code = js ''lo'', commonCodes = None\<rparr>,
      \<lparr>code = js ''si'', commonCodes = None\<rparr>,
      \<lparr>code = js ''ta'', commonCodes = None\<rparr>,
      \<lparr>code = js ''te'', commonCodes = None\<rparr>,
      \<lparr>code = js ''kn'', commonCodes = None\<rparr>,
      \<lparr>code = js ''ml'', commonCodes = None\<rparr>,
      \<lparr>code = js ''gu'', commonCodes = None\<rparr>,
      \<lparr>code = js ''pa'', commonCodes = None\<rparr>,
      \<lparr>code = js ''mr'', commonCodes = None\<rparr>,
      \<lparr>code = js ''ne'', commonCodes = None\<rparr>,
      \<lparr>code = js ''ur'', commonCodes = None\<rparr>,
      \<lparr>code = js ''sd'', commonCodes = None\<rparr>,
      \<lparr>code = js ''ps'', commonCodes = None\<rparr>,
      \<lparr>code = js ''dv'', commonCodes = None\<rparr>,
      \<lparr>code = js ''he'', commonCodes = None\<rparr>,
      \<lparr>code = js ''ku'', commonCodes = None\<rparr>,
      \<lparr>code = js ''az'', commonCodes = None\<rparr>,
      \<lparr>code = js ''ka'', commonCodes = None\<rparr>,
      \<lparr>code = js ''hy'', commonCodes = None\<rparr>,
      \<lparr>code = js ''sw'', commonCodes = None\<rparr>,
      \<lparr>code = js ''am'', commonCodes = None\<rparr>,
      \<lparr>code = js ''ti'', commonCodes = None\<rparr>,
      \<lparr>code = js ''om'', commonCodes = None\<rparr>,
      \<lparr>code = js ''so'', commonCodes = None\<rparr>,
      \<lparr>code = js ''ha'', commonCodes = None\<rparr>,
      \<lparr>code = js ''yo'', commonCodes = None\<rparr>,
      \<lparr>code = js ''ig'', commonCodes = None\<rparr>,
      \<lparr>code = js ''zu'', commonCodes = None\<rparr>,
      \<lparr>code = js ''xh'', commonCodes = None\<rparr>,
      \<lparr>code = js ''af'', commonCodes = None\<rparr>,
      \<lparr>code = js ''es-MX'', commonCodes = None\<rparr>,
      \<lparr>code = js ''es-AR'', commonCodes = None\<rparr>,
      \<lparr>code = js ''es-CO'', commonCodes = None\<rparr>,
      \<lparr>code = js ''es-CL'', commonCodes = None\<rparr>,
      \<lparr>code = js ''es-PE'', commonCodes = None\<rparr>,
      \<lparr>code = js ''es-VE'', commonCodes = None\<rparr>,
      \<lparr>code = js ''pt-BR'', commonCodes = None\<rparr>,
      \<lparr>code = js ''pt-PT'', commonCodes = None\<rparr>,
      \<lparr>code = js ''en-US'', commonCodes = None\<rparr>,
      \<lparr>code = js ''en-GB'', commonCodes = None\<rparr>,
      \<lparr>code = js ''en-AU'', commonCodes = None\<rparr>,
      \<lparr>code = js ''en-CA'', commonCodes = None\<rparr>,
      \<lparr>code = js ''fr-FR'', commonCodes = None\<rparr>,
      \<lparr>code = js ''fr-CA'', commonCodes = None\<rparr>,
      \<lparr>code = js ''fr-CH'', commonCodes = None\<rparr>,
      \<lparr>code = js ''fr-BE'', commonCodes = None\<rparr>,
      \<lparr>code = js ''de-DE'', commonCodes = None\<rparr>,
      \<lparr>code = js ''de-AT'', commonCodes = None\<rparr>,
      \<lparr>code = js ''de-CH'', commonCodes = None\<rparr>,
      \<lparr>code = js ''ar-SA'', commonCodes = None\<rparr>,
      \<lparr>code = js ''ar-EG'', commonCodes = None\<rparr>,
      \<lparr>code = js ''ar-AE'', commonCodes = None\<rparr>,
      \<lparr>code = js ''ar-MA'', commonCodes = None\<rparr>,
      \<lparr>code = js ''id'', commonCodes = None\<rparr>,
      \<lparr>code = js ''ms'', commonCodes = None\<rparr>,
      \<lparr>code = js ''tl'', commonCodes = None\<rparr>,
      \<lparr>code = js ''ceb'', commonCodes = None\<rparr>,
      \<lparr>code = js ''haw'', commonCodes = None\<rparr>,
      \<lparr>code = js ''mi'', commonCodes = None\<rparr>,
      \<lparr>code = js ''sm'', commonCodes = None\<rparr>,
      \<lparr>code = js ''to'', commonCodes = None\<rparr>,
      \<lparr>code = js ''fj'', commonCodes = None\<rparr>,
      \<lparr>code = js ''eo'', commonCodes = None\<rparr>,
      \<lparr>code = js ''ia'', commonCodes = None\<rparr>,
      \<lparr>code = js ''vo'', commonCodes = None\<rparr>,
      \<lparr>code = js ''asl'', commonCodes = None\<rparr>,
      \<lparr>code = js ''bsl'', commonCodes = None\<rparr>,
      \<lparr>code = js ''jsl'', commonCodes = None\<rparr>,
      \<lparr>code = js ''zxx'', commonCodes = None\<rparr>,
      \<lparr>code = js ''mul'', commonCodes = None\<rparr>,
      \<lparr>code = js ''und'', commonCodes = None\<rparr>]"

text \<open>
  \<^verbatim>\<open>String.prototype.toLowerCase\<close> is a built-in of the JavaScript engine. On a string of
  ASCII code units it turns A to Z into a to z and leaves every other unit. On a string
  with a code unit beyond ASCII the result follows the engine's Unicode case mapping
  (which turns the Kelvin sign into k, folds the capitals of other alphabets and has a
  context rule for the Greek sigma); that mapping is not part of the sources and is the
  parameter \<open>unicodeLower\<close> of the functions that lower-case.
\<close>

definition isAscii :: "jsstring \<Rightarrow> bool" where
  "isAscii s = list_all (\<lambda>u. u < 128) s"

definition lowerUnit :: "codeunit \<Rightarrow> codeunit" where
  "lowerUnit u = (if 65 \<le> u \<and> u \<le> 90 then u + 32 else u)"

definition toLowerCase :: "(jsstring \<Rightarrow> jsstring) \<Rightarrow> jsstring \<Rightarrow> jsstring" where
  "toLowerCase unicodeLower s = (if isAscii s then map lowerUnit s else unicodeLower s)"

text \<open>
  \<^verbatim>\<open>String.prototype.trim\<close> removes white space and line terminators from both ends:
  tab, line feed, vertical tab, form feed, carriage return, space, no-break space
  (U+00A0), U+1680, U+2000 to U+200A, the line and paragraph separators U+2028 and
  U+2029, U+202F, U+205F, U+3000 and the byte order mark U+FEFF.
\<close>

definition isSpace :: "codeunit \<Rightarrow> bool" where
  "isSpace u =
     (u \<in> set [0x09, 0x0A, 0x0B, 0x0C, 0x0D, 0x20, 0xA0, 0x1680, 0x2028, 0x2029, 0x202F,
               0x205F, 0x3000, 0xFEFF]
      \<or> (0x2000 \<le> u \<and> u \<le> 0x200A))"

definition trim :: "jsstring \<Rightarrow> jsstring" where
  "trim s = rev (dropWhile isSpace (rev (dropWhile isSpace s)))"

text \<open>\<^verbatim>\<open>split('.')\<close>: the segments between dots, empty ones included.\<close>

fun splitDot :: "jsstring \<Rightarrow> jsstring list" where
  "splitDot [] = [[]]"
| "splitDot (c # cs) =
     (if c = 46 then [] # splitDot cs
      else (case splitDot cs of [] \<Rightarrow> [[c]] | p # ps \<Rightarrow> (c # p) # ps))"

text \<open>
  \<^verbatim>\<open>/^(srt|ass|vtt|sub|idx|ssa|txt|s\d+e\d+|\d+x\d+)$/\<close>. The expression starts with
  \<^verbatim>\<open>^\<close>, so it can match at index 0 only, and \<^verbatim>\<open>part.match\<close> is truthy when it does.
\<close>

definition skipRe :: re where
  "skipRe =
     Seq (Alt (lits (js ''srt'')) (Alt (lits (js ''ass'')) (Alt (lits (js ''vtt''))
          (Alt (lits (js ''sub'')) (Alt (lits (js ''idx'')) (Alt (lits (js ''ssa''))
          (Alt (lits (js ''txt''))
          (Alt (Seq (lits (js ''s'')) (Seq (Rep 1 None Digit)
                  (Seq (lits (js ''e'')) (Rep 1 None Digit))))
               (Seq (Rep 1 None Digit) (Seq (lits (js ''x'')) (Rep 1 None Digit))))))))))) Eos"

definition isSkipped :: "jsstring \<Rightarrow> bool" where
  "isSkipped part = (run skipRe (part, []) \<noteq> [])"

text \<open>The predicate given to \<^verbatim>\<open>find\<close> in \<^verbatim>\<open>getLanguageByCommonCode\<close>.\<close>

definition langMatches :: "(jsstring \<Rightarrow> jsstring) \<Rightarrow> jsstring \<Rightarrow> LanguageInfo \<Rightarrow> bool" where
  "langMatches unicodeLower normalizedCode lang =
     (toLowerCase unicodeLower (code lang) = normalizedCode \<or>
      (case commonCodes lang of
         None \<Rightarrow> False
       | Some cs \<Rightarrow> list_ex (\<lambda>c. toLowerCase unicodeLower c = normalizedCode) cs))"

definition getLanguageByCommonCode :: "(jsstring \<Rightarrow> jsstring) \<Rightarrow> jsstring \<Rightarrow> LanguageInfo option" where
  "getLanguageByCommonCode unicodeLower c =
     (let normalizedCode = trim (toLowerCase unicodeLower c)
      in find (langMatches unicodeLower normalizedCode) COMPREHENSIVE_LANGUAGES)"

text \<open>One turn of the loop over the parts, and the loop.\<close>

definition extractStep ::
  "(jsstring \<Rightarrow> jsstring) \<Rightarrow> LanguageInfo list \<Rightarrow> jsstring \<Rightarrow> LanguageInfo list" where
  "extractStep unicodeLower foundLanguages part =
     (if isSkipped part then foundLanguages
      else
        (case getLanguageByCommonCode unicodeLower part of
           None \<Rightarrow> foundLanguages
         | Some language \<Rightarrow>
             if find (\<lambda>l. code l = code language) foundLanguages \<noteq> None then foundLanguages
             else foundLanguages @ [language]))"

definition extractLanguageFromFilename :: "(jsstring \<Rightarrow> jsstring) \<Rightarrow> jsstring \<Rightarrow> LanguageInfo list" where
  "extractLanguageFromFilename unicodeLower filename =
     foldl (extractStep unicodeLower) [] (splitDot (toLowerCase unicodeLower filename))"

text \<open>
  The claim's wording of the identification. The names of a language are its code and
  its aliases, in lower case. The segments are those of the file name in lower case, so
  that neither the skipped extensions and episode numbers nor the names depend on case;
  a segment is kept when it is not skipped. \<open>namedBy norm\<close> lists, segment by segment
  and in table order within a segment, the languages of the table one of whose names is
  \<open>norm\<close> of a kept segment; \<open>firstOccurrences\<close> keeps the first occurrence of each.
  The claim compares a segment and a name without regard to case
  (\<open>identifiedLanguages\<close>); \<open>identifiedLanguagesTrimmed\<close> also removes the white
  space around the segment.
\<close>

definition languageNames :: "(jsstring \<Rightarrow> jsstring) \<Rightarrow> LanguageInfo \<Rightarrow> jsstring list" where
  "languageNames unicodeLower lang =
     toLowerCase unicodeLower (code lang) #
       (case commonCodes lang of None \<Rightarrow> [] | Some cs \<Rightarrow> map (toLowerCase unicodeLower) cs)"

definition keptSegments :: "(jsstring \<Rightarrow> jsstring) \<Rightarrow> jsstring \<Rightarrow> jsstring list" where
  "keptSegments unicodeLower filename =
     filter (\<lambda>seg. \<not> isSkipped seg) (splitDot (toLowerCase unicodeLower filename))"

definition namedBy ::
  "(jsstring \<Rightarrow> jsstring) \<Rightarrow> (jsstring \<Rightarrow> jsstring) \<Rightarrow> jsstring \<Rightarrow> LanguageInfo list" where
  "namedBy unicodeLower norm filename =
     concat (map (\<lambda>seg. filter (\<lambda>lang. norm seg \<in> set (languageNames unicodeLower lang))
                          COMPREHENSIVE_LANGUAGES)
               (keptSegments unicodeLower filename))"

definition firstOccurrences :: "'a list \<Rightarrow> 'a list" where
  "firstOccurrences xs = rev (remdups (rev xs))"

definition identifiedLanguages :: "(jsstring \<Rightarrow> jsstring) \<Rightarrow> jsstring \<Rightarrow> LanguageInfo list" where
  "identifiedLanguages unicodeLower filename =
     firstOccurrences (namedBy unicodeLower (toLowerCase unicodeLower) filename)"

definition identifiedLanguagesTrimmed :: "(jsstring \<Rightarrow> jsstring) \<Rightarrow> jsstring \<Rightarrow> LanguageInfo list" where
  "identifiedLanguagesTrimmed unicodeLower filename =
     firstOccurrences (namedBy unicodeLower (\<lambda>seg. trim (toLowerCase unicodeLower seg)) filename)"

text \<open>
  The names of a language of the table computed with the ASCII folding alone, and the
  test that an entry of the table is written in ASCII.
\<close>

definition asciiNames :: "LanguageInfo \<Rightarrow> jsstring list" where
  "asciiNames lang =
     map lowerUnit (code lang) #
       (case commonCodes lang of None \<Rightarrow> [] | Some cs \<Rightarrow> map (map lowerUnit) cs)"

definition asciiEntry :: "LanguageInfo \<Rightarrow> bool" where
  "asciiEntry lang =
     (isAscii (code lang) \<and> (case commonCodes lang of None \<Rightarrow> True | Some cs \<Rightarrow> list_all isAscii cs))"

text \<open>
  A mapping to stand for the engine's in examples: it folds A to Z, the capital letters
  of Latin-1 (U+00C0 to U+00DE without the multiplication sign) and the Kelvin sign
  U+212A, which becomes k, and leaves every other code unit.
\<close>

definition sampleUnicodeLower :: "jsstring \<Rightarrow> jsstring" where
  "sampleUnicodeLower s =
     map (\<lambda>u. if 65 \<le> u \<and> u \<le> 90 then u + 32
               else if 0xC0 \<le> u \<and> u \<le> 0xDE \<and> u \<noteq> 0xD7 then u + 32
               else if u = 0x212A then 107
               else u) s"

text \<open>
  A file name with a no-break space before \<^verbatim>\<open>en\<close> and the Kelvin sign for the k of
  \<^verbatim>\<open>ko\<close>.
\<close>

definition wideFileName :: jsstring where
  "wideFileName = js ''Movie.'' @ [0xA0] @ js ''en.'' @ [0x212A] @ js ''o.srt''"

text \<open>The languages named by a list of parts of the lower-cased file name, as the loop meets them.\<close>

definition namedParts :: "(jsstring \<Rightarrow> jsstring) \<Rightarrow> jsstring list \<Rightarrow> LanguageInfo list" where
  "namedParts unicodeLower parts =
     concat (map (\<lambda>p. filter (\<lambda>lang. trim (toLowerCase unicodeLower p) \<in> set (languageNames unicodeLower lang))
                         COMPREHENSIVE_LANGUAGES)
               (filter (\<lambda>p. \<not> isSkipped p) parts))"

section \<open>The synthesis pipeline and the bulk orchestrator\<close>

text \<open>
  The backend services that parse, synchronize and merge subtitles and that run the jobs
  are not among the sources; the front end holds the types of what they return
  (\<^verbatim>\<open>DualSubtitleConfig\<close>, \<^verbatim>\<open>DualSubtitleResult\<close>, \<^verbatim>\<open>JobStatus\<close>,
  \<^verbatim>\<open>JobProgress\<close>, \<^verbatim>\<open>JobResult\<close>, \<^verbatim>\<open>Job\<close>). The records below follow these
  types, with the optional flags of the configuration resolved to a value and the fields
  that are only displayed (titles, time stamps, percentage, estimated time) left out; the
  operations are modelled from the specification.
\<close>

record DualSubtitleConfig =
  primary_language :: string
  secondary_language :: string
  enable_sync :: bool
  enable_language_prefix :: bool

record DualSubtitleDetails =
  primary_lines :: int
  secondary_lines :: int
  total_lines :: int
  format :: string
  sync_warnings :: "string list option"

record DualSubtitleResult =
  success :: bool
  message :: string
  output_file :: string
  details :: DualSubtitleDetails

datatype JobStatus = pending | running | completed | failed | cancelled

record JobProgress =
  current_step :: string
  current_item :: string
  processed :: nat
  total :: nat

record JobResultItem =
  item_episode_id :: string
  item_note :: string

record JobResult =
  successful :: "JobResultItem list"
  failed_items :: "JobResultItem list"
  skipped :: "JobResultItem list"

record Job =
  job_id :: string
  status :: JobStatus
  progress :: JobProgress
  result :: JobResult
  error :: "string option"

subsection \<open>Cues and tracks\<close>

text \<open>
  Modelled from the spec: the cue model of section 3, which the sources do not contain.
  A cue has a start and an end time (in milliseconds), a text and, once merged, the slot
  it came from, from which the serializer takes position and colour. A track is the
  ordered sequence of its cues; its metadata is left out.
\<close>

datatype Slot = PrimarySlot | SecondarySlot

record Cue =
  cue_start :: nat
  cue_end :: nat
  cue_text :: string
  cue_slot :: "Slot option"

type_synonym Track = "Cue list"

subsection \<open>Dual Merge Engine\<close>

text \<open>
  Modelled from the spec: the upper-casing of a language code for its prefix (\<^verbatim>\<open>EN\<close> for
  \<^verbatim>\<open>en\<close>, section 4.4); only the letters a to z are changed.
\<close>

definition upperChar :: "char \<Rightarrow> char" where
  "upperChar c =
     (case map_of (zip ''abcdefghijklmnopqrstuvwxyz'' ''ABCDEFGHIJKLMNOPQRSTUVWXYZ'') c of
        None \<Rightarrow> c
      | Some u \<Rightarrow> u)"

text \<open>
  Modelled from the spec: the bracketed language prefix of section 4.4 (\<^verbatim>\<open>[EN]\<close> for
  \<^verbatim>\<open>en\<close>), whose code is not among the sources.
\<close>

definition languagePrefix :: "string \<Rightarrow> string" where
  "languagePrefix lang = ''['' @ map upperChar lang @ '']''"

text \<open>
  Modelled from the spec: the tagging of a cue with its slot, and the prefix put before
  its text when prefixes are enabled (section 4.4); the merge engine is not among the
  sources.
\<close>

definition tagCue :: "Slot \<Rightarrow> string \<Rightarrow> bool \<Rightarrow> Cue \<Rightarrow> Cue" where
  "tagCue sl lang withPrefix c =
     c\<lparr>cue_text := (if withPrefix then languagePrefix lang @ cue_text c else cue_text c),
       cue_slot := Some sl\<rparr>"

text \<open>
  Modelled from the spec: \<^verbatim>\<open>Merge(primaryTrack, secondaryTrack, config) -> Track\<close> of
  section 4.4, which is not among the sources. Each source cue keeps its own timing; the
  two tagged cue streams are concatenated, the primary one first, and sorted by start time
  with a stable sort (\<^const>\<open>sort_key\<close> is insertion sort, which is stable).
\<close>

definition Merge :: "Track \<Rightarrow> Track \<Rightarrow> DualSubtitleConfig \<Rightarrow> Track" where
  "Merge primaryTrack secondaryTrack config =
     sort_key cue_start
       (map (tagCue PrimarySlot (primary_language config) (enable_language_prefix config)) primaryTrack @
        map (tagCue SecondarySlot (secondary_language config) (enable_language_prefix config)) secondaryTrack)"

subsection \<open>Synchronizer Adapter\<close>

text \<open>
  Modelled from the spec: the external synchronization tool of section 6, invoked as
  \<^verbatim>\<open>sync(inputPath, referencePath, outputPath) -> exitCode\<close>, which is not part of the
  repository. A run of the tool on a target and a reference either cannot start (the tool
  is missing) or ends after some seconds with an exit code and the track it wrote. The
  reference is the media file or another track.
\<close>

datatype Reference = Media string | ReferenceTrack Track

datatype ToolRun = ToolMissing | Exited nat int Track

type_synonym SyncTool = "Track \<Rightarrow> Reference \<Rightarrow> ToolRun"

record SyncCall =
  call_target :: Track
  call_reference :: Reference

record Synced =
  synced_track :: Track
  warnings :: "string list"


text \<open>
  Modelled from the spec: \<^verbatim>\<open>Synchronize(targetTrack, reference, timeoutSeconds)\<close> of
  section 4.3, which is not among the sources. On timeout or tool failure the adapter
  returns the original track with a warning; otherwise the track the tool wrote.
\<close>

definition Synchronize :: "SyncTool \<Rightarrow> Track \<Rightarrow> Reference \<Rightarrow> nat \<Rightarrow> Synced" where
  "Synchronize tool targetTrack reference timeoutSeconds =
     (case tool targetTrack reference of
        ToolMissing \<Rightarrow>
          \<lparr>synced_track = targetTrack, warnings = [''synchronization tool not found'']\<rparr>
      | Exited seconds exitCode written \<Rightarrow>
          if timeoutSeconds < seconds then
            \<lparr>synced_track = targetTrack, warnings = [''synchronization timed out'']\<rparr>
          else if exitCode \<noteq> 0 then
            \<lparr>synced_track = targetTrack, warnings = [''synchronization failed'']\<rparr>
          else \<lparr>synced_track = written, warnings = []\<rparr>)"

text \<open>
  Modelled from the spec: the adapter as the pipeline calls it, with the list of the calls
  made so far passed along, so that what each call received can be stated.
\<close>

definition synchronizeLogged ::
  "SyncTool \<Rightarrow> Track \<Rightarrow> Reference \<Rightarrow> nat \<Rightarrow> SyncCall list \<Rightarrow> Synced \<times> SyncCall list" where
  "synchronizeLogged tool targetTrack reference timeoutSeconds calls =
     (Synchronize tool targetTrack reference timeoutSeconds,
      calls @ [\<lparr>call_target = targetTrack, call_reference = reference\<rparr>])"

subsection \<open>Creating one dual subtitle\<close>

text \<open>
  Modelled from the spec: the ways the creation of one dual subtitle can fail before any
  work is done: the two languages are the same (section 7), or a track has no cue
  (section 3).
\<close>

datatype PipelineError = InvalidConfiguration | EmptyTrack

text \<open>
  Modelled from the spec: the result reported for a created dual subtitle. The type
  \<^verbatim>\<open>DualSubtitleResult\<close> is among the sources, the code that fills it is not; the line
  counts are the cue counts of the two merged tracks and of the output track, and the
  output is named by the convention of section 6.
\<close>

definition dualResult ::
  "string \<Rightarrow> DualSubtitleConfig \<Rightarrow> Track \<Rightarrow> Track \<Rightarrow> Track \<Rightarrow> string list \<Rightarrow> DualSubtitleResult" where
  "dualResult base config primaryTrack secondaryTrack merged ws =
     \<lparr>success = True,
      message = ''Dual subtitle created'',
      output_file = dualFileName base (primary_language config) (secondary_language config) ''srt'',
      details =
        \<lparr>primary_lines = int (length primaryTrack),
         secondary_lines = int (length secondaryTrack),
         total_lines = int (length merged),
         format = ''srt'',
         sync_warnings = (if ws = [] then None else Some ws)\<rparr>\<rparr>"

text \<open>
  Modelled from the spec: the creation of one dual subtitle (sections 3, 4.3, 4.4 and 7),
  which is not among the sources. Equal languages are an invalid configuration and a
  track without cues cannot be merged; with synchronization enabled the primary track is
  synchronized to the media and the secondary track to the track that came back for the
  primary (hybrid sync); the two tracks are then merged. The result comes with the merged
  track and the calls made to the adapter.
\<close>

definition createDualSubtitle ::
  "SyncTool \<Rightarrow> nat \<Rightarrow> string \<Rightarrow> Track \<Rightarrow> Track \<Rightarrow> DualSubtitleConfig \<Rightarrow> SyncCall list
     \<Rightarrow> (PipelineError + DualSubtitleResult \<times> Track) \<times> SyncCall list" where
  "createDualSubtitle tool timeoutSeconds media primaryTrack secondaryTrack config calls =
     (if primary_language config = secondary_language config then (Inl InvalidConfiguration, calls)
      else if primaryTrack = [] \<or> secondaryTrack = [] then (Inl EmptyTrack, calls)
      else if enable_sync config then
        (let (p, calls1) = synchronizeLogged tool primaryTrack (Media media) timeoutSeconds calls;
             (s, calls2) = synchronizeLogged tool secondaryTrack (ReferenceTrack (synced_track p))
                             timeoutSeconds calls1;
             merged = Merge (synced_track p) (synced_track s) config
         in (Inr (dualResult media config (synced_track p) (synced_track s) merged
                    (warnings p @ warnings s), merged),
             calls2))
      else
        (let merged = Merge primaryTrack secondaryTrack config
         in (Inr (dualResult media config primaryTrack secondaryTrack merged [], merged), calls)))"

subsection \<open>Bulk jobs\<close>

text \<open>
  Modelled from the spec: the outcome of one episode of a bulk job (section 4.6):
  successful with an output path, failed with an error, or skipped with a reason.
\<close>

datatype Outcome = Succeeded string | Failed string | Skipped string

text \<open>
  Modelled from the spec: the state of a bulk run, that is the job record of section 3
  and the progress updates committed to the job store so far, oldest first.
\<close>

record BulkRun =
  job :: Job
  updates :: "JobProgress list"

text \<open>
  Modelled from the spec: \<^verbatim>\<open>Create\<close> of the job store (section 4.5) for a bulk job over a
  worklist; the store is not among the sources. A job is created pending, with nothing
  processed and the size of the worklist as total.
\<close>

definition createBulkJob :: "string \<Rightarrow> string list \<Rightarrow> BulkRun" where
  "createBulkJob jid episodes =
     \<lparr>job = \<lparr>job_id = jid, status = pending,
              progress = \<lparr>current_step = ''Queued'', current_item = [], processed = 0,
                          total = length episodes\<rparr>,
              result = \<lparr>successful = [], failed_items = [], skipped = []\<rparr>,
              error = None\<rparr>,
      updates = []\<rparr>"

text \<open>
  Modelled from the spec: \<^verbatim>\<open>UpdateProgress\<close> of the job store (section 4.5). The update
  is committed to a running job; a job in a terminal state is immutable.
\<close>

definition updateProgress :: "JobProgress \<Rightarrow> BulkRun \<Rightarrow> BulkRun" where
  "updateProgress p st =
     (if status (job st) = running
      then st\<lparr>job := (job st)\<lparr>progress := p\<rparr>, updates := updates st @ [p]\<rparr>
      else st)"

text \<open>
  Modelled from the spec: the transition from pending to running (section 4.6), which
  commits the first progress of the job.
\<close>

definition startJob :: "BulkRun \<Rightarrow> BulkRun" where
  "startJob st =
     (if status (job st) = pending
      then updateProgress ((progress (job st))\<lparr>current_step := ''Processing''\<rparr>)
             (st\<lparr>job := (job st)\<lparr>status := running\<rparr>\<rparr>)
      else st)"

text \<open>
  Modelled from the spec: the classification of an episode's outcome into the result
  lists (section 4.6).
\<close>

definition recordOutcome :: "string \<Rightarrow> Outcome \<Rightarrow> BulkRun \<Rightarrow> BulkRun" where
  "recordOutcome ep outcome st =
     (let r = result (job st);
          r' = (case outcome of
                  Succeeded path \<Rightarrow>
                    r\<lparr>successful := successful r @ [\<lparr>item_episode_id = ep, item_note = path\<rparr>]\<rparr>
                | Failed err \<Rightarrow>
                    r\<lparr>failed_items := failed_items r @ [\<lparr>item_episode_id = ep, item_note = err\<rparr>]\<rparr>
                | Skipped reason \<Rightarrow>
                    r\<lparr>skipped := skipped r @ [\<lparr>item_episode_id = ep, item_note = reason\<rparr>]\<rparr>)
      in st\<lparr>job := (job st)\<lparr>result := r'\<rparr>\<rparr>)"

text \<open>
  Modelled from the spec: the transitions from running to completed and to cancelled
  (section 4.6).
\<close>

definition finishJob :: "JobStatus \<Rightarrow> BulkRun \<Rightarrow> BulkRun" where
  "finishJob terminal st =
     (if status (job st) = running then st\<lparr>job := (job st)\<lparr>status := terminal\<rparr>\<rparr> else st)"

text \<open>
  Modelled from the spec: the bulk execution algorithm of section 4.6, which is not among
  the sources. Episodes are processed one after the other; a cancellation request is
  looked for at each episode boundary (\<open>cancelSeen n\<close> says whether one is seen at the
  boundary reached after \<open>n\<close> episodes); after each episode its outcome is recorded and
  the progress is updated with one more episode processed. \<open>processEpisode\<close> stands for
  the work on one episode.
\<close>

fun bulkLoop :: "(string \<Rightarrow> Outcome) \<Rightarrow> (nat \<Rightarrow> bool) \<Rightarrow> string list \<Rightarrow> BulkRun \<Rightarrow> BulkRun" where
  "bulkLoop processEpisode cancelSeen [] st = finishJob completed st"
| "bulkLoop processEpisode cancelSeen (ep # rest) st =
     (if cancelSeen (processed (progress (job st))) then finishJob cancelled st
      else
        bulkLoop processEpisode cancelSeen rest
          (updateProgress
             ((progress (job st))\<lparr>current_item := ep,
                                  processed := Suc (processed (progress (job st)))\<rparr>)
             (recordOutcome ep (processEpisode ep) st)))"

text \<open>
  Modelled from the spec: a bulk job from its creation to its terminal state (sections
  4.5 and 4.6): created pending, started, then the loop over the worklist.
\<close>

definition runBulkJob ::
  "(string \<Rightarrow> Outcome) \<Rightarrow> (nat \<Rightarrow> bool) \<Rightarrow> string \<Rightarrow> string list \<Rightarrow> BulkRun" where
  "runBulkJob processEpisode cancelSeen jid episodes =
     bulkLoop processEpisode cancelSeen episodes (startJob (createBulkJob jid episodes))"

subsection \<open>Sample tracks and tools\<close>

text \<open>A track of \<open>n\<close> one-second cues, two seconds apart, starting at \<open>offset\<close> milliseconds.\<close>

definition sampleTrack :: "nat \<Rightarrow> nat \<Rightarrow> string \<Rightarrow> Track" where
  "sampleTrack n offset line =
     map (\<lambda>i. \<lparr>cue_start = offset + 2000 * i, cue_end = offset + 2000 * i + 1000,
                cue_text = line, cue_slot = None\<rparr>) [0..<n]"

definition sampleConfig :: "bool \<Rightarrow> bool \<Rightarrow> DualSubtitleConfig" where
  "sampleConfig sync withPrefix =
     \<lparr>primary_language = ''en'', secondary_language = ''ja'',
      enable_sync = sync, enable_language_prefix = withPrefix\<rparr>"

text \<open>A tool that shifts every cue by 500 milliseconds in 30 seconds, and tools that fail.\<close>

definition shiftCue :: "nat \<Rightarrow> Cue \<Rightarrow> Cue" where
  "shiftCue d c = c\<lparr>cue_start := cue_start c + d, cue_end := cue_end c + d\<rparr>"

definition shiftingTool :: SyncTool where
  "shiftingTool target reference = Exited 30 0 (map (shiftCue 500) target)"





subsection \<open>Notions used to state the properties\<close>

text \<open>The time range of a cue.\<close>

definition timing :: "Cue \<Rightarrow> nat \<times> nat" where
  "timing c = (cue_start c, cue_end c)"

text \<open>
  What holds of a bulk run between two episodes: the committed updates are in
  non-decreasing order of their processed count, none is beyond the current progress, and
  all carry the same total \<open>n\<close>.
\<close>

definition steady :: "nat \<Rightarrow> BulkRun \<Rightarrow> bool" where
  "steady n st =
     (sorted (map processed (updates st))
      \<and> (\<forall>u \<in> set (updates st). processed u \<le> processed (progress (job st)) \<and> total u = n)
      \<and> total (progress (job st)) = n)"

text \<open>A work function that fails on episode 2 and succeeds on the others.\<close>

definition sampleProcess :: "string \<Rightarrow> Outcome" where
  "sampleProcess ep =
     (if ep = ''2'' then Failed ''unreadable subtitle'' else Succeeded (ep @ ''.dual.en-ja.srt''))"

section \<open>Properties of the bulk wizard's counts\<close>

lemma dualSubMatches_unordered:
  "dualSubMatches p s d =
     (case dual_languages d of Some (l1 # l2 # _) \<Rightarrow> {l1, l2} = {p, s} | _ \<Rightarrow> False)"
  by (auto simp: dualSubMatches_def doubleton_eq_iff split: option.splits list.splits)

lemma hasExistingDual_holdsDualFor: "hasExistingDual p s ep = holdsDualFor p s ep"
  by (cases "existing_dual_subtitles ep")
     (simp_all add: hasExistingDual_def holdsDualFor_def dualSubMatches_unordered [abs_def])

lemma episodesWithBoth_inBothLists:
  assumes "language_availability a p = Some pa" and "language_availability a s = Some sa"
  shows "episodesWithBoth pa sa = inBothLists a p s"
proof -
  have "list_ex (\<lambda>secEp. episode_id secEp = episode_id ep) xs = (episode_id ep \<in> episode_id ` set xs)"
    for ep :: EpisodeDetail and xs :: "EpisodeDetail list"
    unfolding list_ex_iff image_iff by metis
  then show ?thesis
    using assms by (simp add: episodesWithBoth_def inBothLists_def listedEpisodes_def)
qed

lemma inBothLists_absent:
  "language_availability a p = None \<or> language_availability a s = None \<Longrightarrow> inBothLists a p s = []"
  by (auto simp: inBothLists_def listedEpisodes_def)

lemma length_without:
  "int (length (filter (\<lambda>x. \<not> P x) xs)) = int (length xs) - int (length (filter P xs))"
  using sum_length_filter_compl [of P xs] by simp

lemma stats_ready_lists:
  "ready (stats a p s) =
     int (length (inBothLists a p s)) - int (length (filter (holdsDualFor p s) (inBothLists a p s)))"
proof (cases "language_availability a p")
  case None
  then show ?thesis by (simp add: stats_def inBothLists_absent)
next
  case (Some pa)
  note pa = this
  show ?thesis
  proof (cases "language_availability a s")
    case None
    then show ?thesis using pa by (simp add: stats_def inBothLists_absent)
  next
    case (Some sa)
    have "hasExistingDual p s = holdsDualFor p s"
      by (rule ext) (rule hasExistingDual_holdsDualFor)
    then show ?thesis
      using pa Some episodesWithBoth_inBothLists [OF pa Some]
      by (simp add: stats_def episodesWithExistingDual_def Let_def)
  qed
qed

lemma readyCount_stats:
  "p \<noteq> [] \<Longrightarrow> s \<noteq> [] \<Longrightarrow> readyCount (Some a) p s = ready (stats a p s)"
  by (simp add: readyCount_def stats_def Let_def split: option.splits)

text \<open>
  Claim C1. For every analysis and every pair of selected languages, the ready count of
  the episode configuration step is the number of episodes listed for both languages
  minus the number of those that already hold a dual subtitle for the pair, which is the
  size of the worklist; for selected (non-empty) languages the count in the wizard footer
  is the same number.
\<close>

theorem ready_is_worklist_size:
  "ready (stats a p s) =
     int (length (inBothLists a p s)) - int (length (filter (holdsDualFor p s) (inBothLists a p s)))
   \<and> ready (stats a p s) = int (length (worklist a p s))
   \<and> (p \<noteq> [] \<and> s \<noteq> [] \<longrightarrow> readyCount (Some a) p s = int (length (worklist a p s)))"
  by (simp add: stats_ready_lists readyCount_stats worklist_def length_without)

lemma twelve_both: "length (inBothLists twelveEpisodeShow ''en'' ''ja'') = 9"
  by (simp add: inBothLists_def listedEpisodes_def twelveEpisodeShow_def plainEpisode_def dualEpisode_def)

lemma twelve_existing:
  "length (filter (holdsDualFor ''en'' ''ja'') (inBothLists twelveEpisodeShow ''en'' ''ja'')) = 2"
  by (simp add: inBothLists_def listedEpisodes_def twelveEpisodeShow_def plainEpisode_def
      dualEpisode_def holdsDualFor_def doubleton_eq_iff)

text \<open>
  The scenario of the specification: twelve episodes, nine with both languages, two of
  them with the dual subtitle already there, seven ready.
\<close>

theorem ready_is_worklist_size_witness:
  "total_episodes twelveEpisodeShow = 12
   \<and> length (inBothLists twelveEpisodeShow ''en'' ''ja'') = 9
   \<and> length (filter (holdsDualFor ''en'' ''ja'') (inBothLists twelveEpisodeShow ''en'' ''ja'')) = 2
   \<and> ''en'' \<noteq> [] \<and> ''ja'' \<noteq> []
   \<and> ready (stats twelveEpisodeShow ''en'' ''ja'') = 7
   \<and> readyCount (Some twelveEpisodeShow) ''en'' ''ja'' = 7
   \<and> length (worklist twelveEpisodeShow ''en'' ''ja'') = 7"
  using ready_is_worklist_size [of twelveEpisodeShow "''en''" "''ja''"] twelve_both twelve_existing
  by (simp add: twelveEpisodeShow_def)

text \<open>
  Claim C2. The test that excludes an episode with an existing dual subtitle does not
  depend on the order of the two selected languages, for one episode and for any list of
  episodes, and a dual subtitle recorded with the languages \<open>lang1\<close>, \<open>lang2\<close> matches
  the request exactly when the two are the requested pair in either order.
\<close>

theorem exclusion_symmetric:
  "hasExistingDual p s ep = hasExistingDual s p ep
   \<and> filter (hasExistingDual p s) eps = filter (hasExistingDual s p) eps
   \<and> dualSubMatches p s \<lparr>dual_languages = Some (lang1 # lang2 # rest)\<rparr>
       = ((lang1, lang2) = (p, s) \<or> (lang1, lang2) = (s, p))"
proof -
  have "dualSubMatches p s = dualSubMatches s p"
    by (rule ext) (auto simp: dualSubMatches_def split: option.splits list.splits)
  then have sym: "hasExistingDual p s = hasExistingDual s p"
    unfolding hasExistingDual_def [abs_def] by (rule ssubst) (rule refl)
  show ?thesis
    by (simp add: sym dualSubMatches_def)
qed

text \<open>An English-Japanese dual subtitle excludes the episode from a Japanese-English request.\<close>

theorem exclusion_symmetric_witness:
  "hasExistingDual ''ja'' ''en'' (dualEpisode ''1'' ''en'' ''ja'')
   \<and> hasExistingDual ''en'' ''ja'' (dualEpisode ''1'' ''en'' ''ja'')
   \<and> dualSubMatches ''ja'' ''en'' \<lparr>dual_languages = Some [''en'', ''ja'']\<rparr>"
  using exclusion_symmetric [of "''ja''" "''en''" "dualEpisode ''1'' ''en'' ''ja''" "[]" "''en''" "''ja''" "[]"]
  by (simp add: hasExistingDual_def dualSubMatches_def dualEpisode_def)

text \<open>
  Claim C10. The language discovery step and the episode configuration step do not show
  the same ready count: for the show of three episodes the first shows 2, the minimum of
  the two availability counts, while one episode only has both languages, and the second
  step and the footer show 1.
\<close>

theorem discovery_count_differs:
  "compatible threeEpisodeShow ''en'' ''ja'' = Some 2
   \<and> ready (stats threeEpisodeShow ''en'' ''ja'') = 1
   \<and> readyCount (Some threeEpisodeShow) ''en'' ''ja'' = 1"
  by (simp add: compatible_def availableOrZero_def stats_def readyCount_def threeEpisodeShow_def
      episodesWithBoth_def episodesWithExistingDual_def hasExistingDual_def plainEpisode_def Let_def)

section \<open>Properties of parseDualLanguages\<close>

lemma parse_documented_example:
  "parseDualLanguages (js ''Movie Name.dual.zh-TW-en.srt'') = Some (js ''zh-TW'', js ''en'')"
  by code_simp

lemma parse_without_marker: "parseDualLanguages (js ''Movie Name.en.srt'') = None"
  by code_simp

text \<open>
  Names composed by the convention: a region on the primary code, on both codes or on
  neither is decoded as composed, also after a base name that itself contains the marker;
  a region of two letters on the secondary code alone is not.
\<close>

lemma parse_region_examples:
  "parseDualLanguages (js (dualFileName ''Show.S01E02'' ''zh-TW'' ''en'' ''srt'')) = Some (js ''zh-TW'', js ''en'')"
  "parseDualLanguages (js (dualFileName ''Show.S01E02'' ''zh-TW'' ''pt-BR'' ''srt'')) = Some (js ''zh-TW'', js ''pt-BR'')"
  "parseDualLanguages (js (dualFileName ''Show.S01E02'' ''en'' ''ja'' ''srt'')) = Some (js ''en'', js ''ja'')"
  "parseDualLanguages (js (dualFileName ''a.dual.en-ja.b'' ''fr'' ''de'' ''srt'')) = Some (js ''fr'', js ''de'')"
  "parseDualLanguages (js (dualFileName ''Show.S01E02'' ''en'' ''pt-BR'' ''srt'')) = Some (js ''en-pt'', js ''BR'')"
  "parseDualLanguages (js (dualFileName ''Show.S01E02'' ''ja'' ''zh-TW'' ''srt'')) = Some (js ''ja-zh'', js ''TW'')"
  by (simp_all add: dualFileName_def) code_simp+

text \<open>A file name that is decoded contains the marker \<^verbatim>\<open>.dual.\<close>.\<close>

lemma run_lits:
  "run (lits w) (t, k) \<noteq> [] \<Longrightarrow> \<exists>post. t = w @ post"
proof (induction w arbitrary: t)
  case Nil
  then show ?case by simp
next
  case (Cons c cs)
  show ?case
  proof (cases t)
    case Nil
    with Cons.prems show ?thesis by simp
  next
    case (Cons x xs)
    with Cons.prems have "x = c" and "run (lits cs) (xs, k) \<noteq> []"
      by (auto split: if_splits)
    with Cons.IH [of xs] Cons show ?thesis by auto
  qed
qed

lemma run_Seq_first: "run (Seq a b) st \<noteq> [] \<Longrightarrow> run a st \<noteq> []"
  by auto

lemma regexMatch_Some:
  "regexMatch r f = Some k \<Longrightarrow> \<exists>pre t. f = pre @ t \<and> run r (t, []) \<noteq> []"
proof (induction f)
  case Nil
  then show ?case by (auto split: list.splits)
next
  case (Cons c cs)
  show ?case
  proof (cases "run r (c # cs, [])")
    case Nil
    with Cons.prems have "regexMatch r cs = Some k" by simp
    from Cons.IH [OF this] obtain pre t where "cs = pre @ t" and "run r (t, []) \<noteq> []"
      by blast
    then have "c # cs = (c # pre) @ t \<and> run r (t, []) \<noteq> []" by simp
    then show ?thesis by blast
  next
    case (Cons m ms)
    then have "c # cs = [] @ (c # cs) \<and> run r (c # cs, []) \<noteq> []" by simp
    then show ?thesis by blast
  qed
qed

lemma parse_needs_marker:
  assumes "parseDualLanguages fileName = Some langs"
  shows "\<exists>pre post. fileName = pre @ js ''.dual.'' @ post"
proof -
  from assms obtain k where "regexMatch dualRe fileName = Some k"
    by (auto simp: parseDualLanguages_def split: option.splits)
  from regexMatch_Some [OF this] obtain pre t
    where f: "fileName = pre @ t" and r: "run dualRe (t, []) \<noteq> []"
    by blast
  from r have "run (lits (js ''.dual.'')) (t, []) \<noteq> []"
    unfolding dualRe_def by (rule run_Seq_first)
  from run_lits [OF this] obtain post where "t = js ''.dual.'' @ post" ..
  with f show ?thesis by blast
qed

text \<open>
  Claim C7. The file name composed for the primary language \<^verbatim>\<open>en\<close> and the secondary
  language \<^verbatim>\<open>zh-TW\<close> is not decoded to that pair: the optional region of the first
  group is greedy and takes \<^verbatim>\<open>-zh\<close>, so the function returns \<^verbatim>\<open>en-zh\<close> and
  \<^verbatim>\<open>TW\<close>.
\<close>

theorem parse_en_zhTW:
  "dualFileName ''Movie'' ''en'' ''zh-TW'' ''srt'' = ''Movie.dual.en-zh-TW.srt''
   \<and> parseDualLanguages (js (dualFileName ''Movie'' ''en'' ''zh-TW'' ''srt'')) = Some (js ''en-zh'', js ''TW'')"
  by (simp add: dualFileName_def) code_simp

section \<open>Properties of extractLanguageFromFilename\<close>

lemma toLowerCase_ascii: "isAscii s \<Longrightarrow> toLowerCase unicodeLower s = map lowerUnit s"
  by (simp add: toLowerCase_def)

lemma firstOccurrences_snoc:
  "firstOccurrences (xs @ [x]) = (if x \<in> set xs then firstOccurrences xs else firstOccurrences xs @ [x])"
  by (simp add: firstOccurrences_def)

lemma set_firstOccurrences: "set (firstOccurrences xs) = set xs"
  by (simp add: firstOccurrences_def)

lemma distinct_firstOccurrences: "distinct (firstOccurrences xs)"
  by (simp add: firstOccurrences_def)

lemma filter_unique_find:
  assumes "distinct xs"
    and "\<And>x y. x \<in> set xs \<Longrightarrow> y \<in> set xs \<Longrightarrow> P x \<Longrightarrow> P y \<Longrightarrow> x = y"
  shows "filter P xs = (case find P xs of None \<Rightarrow> [] | Some x \<Rightarrow> [x])"
  using assms
proof (induction xs)
  case Nil
  then show ?case by simp
next
  case (Cons a xs)
  show ?case
  proof (cases "P a")
    case True
    have "\<not> P y" if "y \<in> set xs" for y
      using Cons.prems(1) Cons.prems(2) [of a y] True that by auto
    then have "filter P xs = []" by (simp add: filter_empty_conv)
    with True show ?thesis by simp
  next
    case False
    have "filter P xs = (case find P xs of None \<Rightarrow> [] | Some x \<Rightarrow> [x])"
      using Cons.prems by (intro Cons.IH) auto
    with False show ?thesis by simp
  qed
qed

lemma codes_distinct: "distinct (map code COMPREHENSIVE_LANGUAGES)"
  by code_simp

lemma table_ascii: "list_all asciiEntry COMPREHENSIVE_LANGUAGES"
  by code_simp

lemma ascii_names_distinct:
  "distinct (concat (map (remdups \<circ> asciiNames) COMPREHENSIVE_LANGUAGES))"
  by code_simp

lemma table_names:
  assumes "lang \<in> set COMPREHENSIVE_LANGUAGES"
  shows "languageNames unicodeLower lang = asciiNames lang"
proof -
  from assms table_ascii have a: "asciiEntry lang"
    by (simp add: list_all_iff)
  show ?thesis
  proof (cases "commonCodes lang")
    case None
    with a show ?thesis
      by (simp add: languageNames_def asciiNames_def asciiEntry_def toLowerCase_ascii)
  next
    case (Some cs)
    with a have "isAscii (code lang)" and "\<forall>c \<in> set cs. isAscii c"
      by (simp_all add: asciiEntry_def list_all_iff)
    with Some show ?thesis
      by (simp add: languageNames_def asciiNames_def toLowerCase_ascii)
  qed
qed

lemma table_distinct: "distinct COMPREHENSIVE_LANGUAGES"
  using codes_distinct by (simp add: distinct_map)

lemma code_inj: "inj_on code (set COMPREHENSIVE_LANGUAGES)"
  using codes_distinct by (simp add: distinct_map)

lemma names_unique:
  assumes "x \<in> set COMPREHENSIVE_LANGUAGES" and "y \<in> set COMPREHENSIVE_LANGUAGES"
    and "n \<in> set (languageNames unicodeLower x)" and "n \<in> set (languageNames unicodeLower y)"
  shows "x = y"
proof -
  let ?g = "remdups \<circ> asciiNames"
  let ?K = "map ?g COMPREHENSIVE_LANGUAGES"
  have "asciiNames l \<noteq> []" for l
    by (simp add: asciiNames_def)
  then have ne: "?g l \<noteq> []" for l
    by simp
  have nonempty: "[] \<notin> set ?K"
  proof
    assume "[] \<in> set ?K"
    then obtain l where "?g l = []" by auto
    with ne show False by blast
  qed
  from ascii_names_distinct have d: "distinct (removeAll [] ?K)"
    and disj: "\<And>ys zs. ys \<in> set ?K \<Longrightarrow> zs \<in> set ?K \<Longrightarrow> ys \<noteq> zs \<Longrightarrow> set ys \<inter> set zs = {}"
    unfolding distinct_concat_iff by blast+
  from nonempty d have "distinct ?K" by (simp add: removeAll_id)
  then have inj: "inj_on ?g (set COMPREHENSIVE_LANGUAGES)"
    by (simp add: distinct_map)
  have "?g x \<in> set ?K" and "?g y \<in> set ?K"
    using assms(1,2) by simp_all
  moreover have "n \<in> set (?g x) \<inter> set (?g y)"
    using assms by (simp add: table_names)
  ultimately have "?g x = ?g y"
    using disj [of "?g x" "?g y"] by blast
  with inj assms(1,2) show ?thesis
    unfolding inj_on_def by blast
qed

lemma langMatches_names:
  "langMatches unicodeLower n lang = (n \<in> set (languageNames unicodeLower lang))"
  by (auto simp: langMatches_def languageNames_def list_ex_iff split: option.splits)

lemma named_is_lookup:
  "filter (\<lambda>lang. trim (toLowerCase unicodeLower part) \<in> set (languageNames unicodeLower lang))
       COMPREHENSIVE_LANGUAGES
     = (case getLanguageByCommonCode unicodeLower part of None \<Rightarrow> [] | Some l \<Rightarrow> [l])"
proof -
  have "filter (langMatches unicodeLower (trim (toLowerCase unicodeLower part))) COMPREHENSIVE_LANGUAGES
          = (case find (langMatches unicodeLower (trim (toLowerCase unicodeLower part)))
                    COMPREHENSIVE_LANGUAGES of
               None \<Rightarrow> [] | Some l \<Rightarrow> [l])"
    by (rule filter_unique_find [OF table_distinct]) (auto simp: langMatches_names intro: names_unique)
  then show ?thesis
    by (simp add: getLanguageByCommonCode_def langMatches_names [abs_def])
qed

lemma namedParts_in_table: "set (namedParts unicodeLower parts) \<subseteq> set COMPREHENSIVE_LANGUAGES"
  by (auto simp: namedParts_def)

lemma namedParts_snoc:
  "namedParts unicodeLower (parts @ [p]) =
     namedParts unicodeLower parts @
       (if isSkipped p then []
        else (case getLanguageByCommonCode unicodeLower p of None \<Rightarrow> [] | Some l \<Rightarrow> [l]))"
  by (simp add: namedParts_def named_is_lookup)

lemma lookup_in_table:
  assumes "getLanguageByCommonCode unicodeLower p = Some l"
  shows "l \<in> set COMPREHENSIVE_LANGUAGES"
proof -
  have "l \<in> set (filter (\<lambda>lang. trim (toLowerCase unicodeLower p) \<in> set (languageNames unicodeLower lang))
                   COMPREHENSIVE_LANGUAGES)"
    using assms by (simp only: named_is_lookup) simp
  then show ?thesis by simp
qed

lemma found_by_code:
  assumes "set found \<subseteq> set COMPREHENSIVE_LANGUAGES" and "l \<in> set COMPREHENSIVE_LANGUAGES"
  shows "(find (\<lambda>l'. code l' = code l) found \<noteq> None) = (l \<in> set found)"
proof -
  have "code l' = code l \<longleftrightarrow> l' = l" if "l' \<in> set found" for l'
    using code_inj that assms by (auto dest: inj_onD)
  then show ?thesis
    by (auto simp: find_None_iff)
qed

lemma loop_is_firstOccurrences:
  "foldl (extractStep unicodeLower) [] parts = firstOccurrences (namedParts unicodeLower parts)"
proof (induction parts rule: rev_induct)
  case Nil
  then show ?case by (simp add: namedParts_def firstOccurrences_def)
next
  case (snoc p parts)
  let ?found = "firstOccurrences (namedParts unicodeLower parts)"
  have sub: "set ?found \<subseteq> set COMPREHENSIVE_LANGUAGES"
    using namedParts_in_table by (simp add: set_firstOccurrences)
  show ?case
  proof (cases "isSkipped p")
    case True
    with snoc show ?thesis by (simp add: extractStep_def namedParts_snoc)
  next
    case False
    show ?thesis
    proof (cases "getLanguageByCommonCode unicodeLower p")
      case None
      with False snoc show ?thesis by (simp add: extractStep_def namedParts_snoc)
    next
      case (Some l)
      have "(find (\<lambda>l'. code l' = code l) ?found \<noteq> None) = (l \<in> set (namedParts unicodeLower parts))"
        using found_by_code [OF sub lookup_in_table [OF Some]] by (simp add: set_firstOccurrences)
      with False Some snoc show ?thesis
        by (simp add: extractStep_def namedParts_snoc firstOccurrences_snoc)
    qed
  qed
qed

lemma namedBy_trim_parts:
  "namedBy unicodeLower (\<lambda>seg. trim (toLowerCase unicodeLower seg)) filename
     = namedParts unicodeLower (splitDot (toLowerCase unicodeLower filename))"
  by (simp add: namedBy_def namedParts_def keptSegments_def)

lemma extract_is_identified:
  "extractLanguageFromFilename unicodeLower filename = identifiedLanguagesTrimmed unicodeLower filename"
  by (simp add: extractLanguageFromFilename_def identifiedLanguagesTrimmed_def
      loop_is_firstOccurrences namedBy_trim_parts)

lemma identified_set:
  "set (identifiedLanguagesTrimmed unicodeLower filename) =
     {lang \<in> set COMPREHENSIVE_LANGUAGES.
        \<exists>seg \<in> set (keptSegments unicodeLower filename).
          trim (toLowerCase unicodeLower seg) \<in> set (languageNames unicodeLower lang)}"
  by (auto simp: identifiedLanguagesTrimmed_def set_firstOccurrences namedBy_def)

lemma identified_distinct_codes:
  "distinct (map code (identifiedLanguagesTrimmed unicodeLower filename))"
proof -
  have "set (identifiedLanguagesTrimmed unicodeLower filename) \<subseteq> set COMPREHENSIVE_LANGUAGES"
    by (auto simp: identified_set)
  then have "inj_on code (set (identifiedLanguagesTrimmed unicodeLower filename))"
    using code_inj by (rule inj_on_subset [rotated])
  then show ?thesis
    by (simp add: distinct_map identifiedLanguagesTrimmed_def distinct_firstOccurrences)
qed

lemma lookup_ascii:
  "getLanguageByCommonCode unicodeLower c
     = find (\<lambda>lang. trim (toLowerCase unicodeLower c) \<in> set (asciiNames lang)) COMPREHENSIVE_LANGUAGES"
  unfolding getLanguageByCommonCode_def Let_def
  by (rule find_cong) (simp_all add: langMatches_names table_names)

lemma alias_lookups:
  "map_option code (getLanguageByCommonCode unicodeLower (js ''jp'')) = Some (js ''ja'')"
  "map_option code (getLanguageByCommonCode unicodeLower (js ''eng'')) = Some (js ''en'')"
  "map_option code (getLanguageByCommonCode unicodeLower (js ''zh-hant'')) = Some (js ''zh-TW'')"
proof -
  have a: "isAscii (js ''jp'')" "isAscii (js ''eng'')" "isAscii (js ''zh-hant'')"
    by code_simp+
  have "map_option code (find (\<lambda>lang. trim (map lowerUnit (js ''jp'')) \<in> set (asciiNames lang))
          COMPREHENSIVE_LANGUAGES) = Some (js ''ja'')"
    by code_simp
  then show "map_option code (getLanguageByCommonCode unicodeLower (js ''jp'')) = Some (js ''ja'')"
    by (simp add: lookup_ascii toLowerCase_ascii a)
  have "map_option code (find (\<lambda>lang. trim (map lowerUnit (js ''eng'')) \<in> set (asciiNames lang))
          COMPREHENSIVE_LANGUAGES) = Some (js ''en'')"
    by code_simp
  then show "map_option code (getLanguageByCommonCode unicodeLower (js ''eng'')) = Some (js ''en'')"
    by (simp add: lookup_ascii toLowerCase_ascii a)
  have "map_option code (find (\<lambda>lang. trim (map lowerUnit (js ''zh-hant'')) \<in> set (asciiNames lang))
          COMPREHENSIVE_LANGUAGES) = Some (js ''zh-TW'')"
    by code_simp
  then show "map_option code (getLanguageByCommonCode unicodeLower (js ''zh-hant'')) = Some (js ''zh-TW'')"
    by (simp add: lookup_ascii toLowerCase_ascii a)
qed

lemma padded_extract:
  "map code (extractLanguageFromFilename sampleUnicodeLower (js ''Movie. en.srt'')) = [js ''en'']"
  by code_simp

lemma padded_identified: "identifiedLanguages sampleUnicodeLower (js ''Movie. en.srt'') = []"
  by code_simp

lemma sample_extract:
  "map code (extractLanguageFromFilename sampleUnicodeLower (js ''Show.S01E02.jp.eng.zh-hant.JPN.srt''))
     = [js ''ja'', js ''en'', js ''zh-TW'']"
  by code_simp

lemma wide_extract:
  "map code (extractLanguageFromFilename sampleUnicodeLower wideFileName) = [js ''en'', js ''ko'']"
  by code_simp

text \<open>
  Claim C8, as stated, fails on a segment with white space around a language name: the
  lookup trims the segment, so \<^verbatim>\<open>Movie. en.srt\<close> yields English although no segment
  equals a code or an alias of English.
\<close>

theorem padded_segment_counterexample:
  "extractLanguageFromFilename sampleUnicodeLower (js ''Movie. en.srt'')
     \<noteq> identifiedLanguages sampleUnicodeLower (js ''Movie. en.srt'')"
proof
  assume "extractLanguageFromFilename sampleUnicodeLower (js ''Movie. en.srt'')
            = identifiedLanguages sampleUnicodeLower (js ''Movie. en.srt'')"
  then have "map code (extractLanguageFromFilename sampleUnicodeLower (js ''Movie. en.srt'')) = []"
    by (simp add: padded_identified)
  moreover have "js ''en'' \<noteq> []"
    by (simp add: js_def)
  ultimately show False
    by (simp add: padded_extract)
qed

text \<open>
  Claim C8, amended. For every file name and every Unicode case mapping of the engine,
  \<^verbatim>\<open>extractLanguageFromFilename\<close> returns, in segment order and each once, exactly the
  languages of the table whose code or alias equals, without regard to case and after
  trimming surrounding white space, a segment of the file name that is not skipped; no
  code occurs twice; and the segments \<^verbatim>\<open>jp\<close>, \<^verbatim>\<open>eng\<close> and \<^verbatim>\<open>zh-hant\<close> identify
  \<^verbatim>\<open>ja\<close>, \<^verbatim>\<open>en\<close> and \<^verbatim>\<open>zh-TW\<close>.
\<close>

theorem extract_identifies_trimmed:
  "extractLanguageFromFilename unicodeLower filename = identifiedLanguagesTrimmed unicodeLower filename
   \<and> distinct (map code (extractLanguageFromFilename unicodeLower filename))
   \<and> set (extractLanguageFromFilename unicodeLower filename) =
       {lang \<in> set COMPREHENSIVE_LANGUAGES.
          \<exists>seg \<in> set (keptSegments unicodeLower filename).
            trim (toLowerCase unicodeLower seg) \<in> set (languageNames unicodeLower lang)}
   \<and> map_option code (getLanguageByCommonCode unicodeLower (js ''jp'')) = Some (js ''ja'')
   \<and> map_option code (getLanguageByCommonCode unicodeLower (js ''eng'')) = Some (js ''en'')
   \<and> map_option code (getLanguageByCommonCode unicodeLower (js ''zh-hant'')) = Some (js ''zh-TW'')"
  using identified_set [of unicodeLower filename] identified_distinct_codes [of unicodeLower filename]
  by (simp only: extract_is_identified alias_lookups simp_thms)

text \<open>
  A file name with an episode number, three aliases, a repeated language and an
  extension, and one with a no-break space and the Kelvin sign.
\<close>

theorem extract_identifies_trimmed_witness:
  "map code (identifiedLanguagesTrimmed sampleUnicodeLower (js ''Show.S01E02.jp.eng.zh-hant.JPN.srt''))
     = [js ''ja'', js ''en'', js ''zh-TW'']
   \<and> map code (identifiedLanguagesTrimmed sampleUnicodeLower wideFileName) = [js ''en'', js ''ko'']
   \<and> distinct (map code (extractLanguageFromFilename sampleUnicodeLower wideFileName))"
  using extract_identifies_trimmed [of sampleUnicodeLower "js ''Show.S01E02.jp.eng.zh-hant.JPN.srt''"]
    extract_identifies_trimmed [of sampleUnicodeLower wideFileName]
    sample_extract wide_extract
  by simp

section \<open>Properties of the merge\<close>

lemma timing_tagCue: "timing (tagCue sl lang withPrefix c) = timing c"
  by (simp add: timing_def tagCue_def)

lemma Merge_length: "length (Merge A B config) = length A + length B"
  by (simp add: Merge_def)

lemma Merge_timings:
  "mset (map timing (Merge A B config)) = mset (map timing A) + mset (map timing B)"
proof -
  have "mset (map timing (Merge A B config)) =
          image_mset timing
            (mset (map (tagCue PrimarySlot (primary_language config) (enable_language_prefix config)) A @
                   map (tagCue SecondarySlot (secondary_language config) (enable_language_prefix config)) B))"
    unfolding Merge_def by (simp only: mset_map mset_sort)
  also have "\<dots> = mset (map timing A) + mset (map timing B)"
    by (simp add: image_mset.compositionality comp_def timing_tagCue)
  finally show ?thesis .
qed

lemma Merge_sorted: "sorted (map cue_start (Merge A B config))"
  by (simp add: Merge_def)

lemma created_lines:
  assumes "createDualSubtitle tool t media A B config calls = (Inr (res, out), calls')"
  shows "total_lines (details res) = primary_lines (details res) + secondary_lines (details res)
         \<and> total_lines (details res) = int (length out)"
  using assms
  by (auto simp: createDualSubtitle_def synchronizeLogged_def dualResult_def Merge_length Let_def
      split: if_splits)

lemma created_unsynced:
  assumes "createDualSubtitle tool t media A B config calls = (Inr (res, out), calls')"
    and "\<not> enable_sync config"
  shows "out = Merge A B config"
  using assms by (auto simp: createDualSubtitle_def Let_def split: if_splits)

text \<open>
  Claim C3. The merge of a primary track \<open>A\<close> and a secondary track \<open>B\<close> has
  \<open>length A + length B\<close> cues, with exactly the time ranges of the cues of \<open>A\<close> and
  \<open>B\<close> (none dropped, none split); and in the result of every successful creation
  \<^verbatim>\<open>total_lines\<close> is \<^verbatim>\<open>primary_lines + secondary_lines\<close> and the cue count of the
  output.
\<close>

theorem merge_preserves_cues:
  "length (Merge A B config) = length A + length B
   \<and> mset (map timing (Merge A B config)) = mset (map timing A) + mset (map timing B)
   \<and> (createDualSubtitle tool t media A B config calls = (Inr (res, out), calls') \<longrightarrow>
        total_lines (details res) = primary_lines (details res) + secondary_lines (details res)
        \<and> total_lines (details res) = int (length out)
        \<and> (\<not> enable_sync config \<longrightarrow> length out = length A + length B))"
proof (intro conjI impI)
  show "length (Merge A B config) = length A + length B"
    by (rule Merge_length)
  show "mset (map timing (Merge A B config)) = mset (map timing A) + mset (map timing B)"
    by (rule Merge_timings)
next
  assume c: "createDualSubtitle tool t media A B config calls = (Inr (res, out), calls')"
  from created_lines [OF c]
  show "total_lines (details res) = primary_lines (details res) + secondary_lines (details res)"
    and "total_lines (details res) = int (length out)"
    by simp_all
  assume "\<not> enable_sync config"
  with c have "out = Merge A B config"
    by (rule created_unsynced)
  then show "length out = length A + length B"
    by (simp add: Merge_length)
qed

lemma sampleTrack_length: "length (sampleTrack n offset line) = n"
  by (simp add: sampleTrack_def)

lemma sampleTrack_nonempty: "0 < n \<Longrightarrow> sampleTrack n offset line \<noteq> []"
  by (simp add: sampleTrack_def)

lemma scenario_created:
  "createDualSubtitle shiftingTool 120 ''Episode'' (sampleTrack 120 0 ''Hello'')
      (sampleTrack 118 300 ''Konnichiwa'') (sampleConfig False True) []
   = (Inr (dualResult ''Episode'' (sampleConfig False True) (sampleTrack 120 0 ''Hello'')
             (sampleTrack 118 300 ''Konnichiwa'')
             (Merge (sampleTrack 120 0 ''Hello'') (sampleTrack 118 300 ''Konnichiwa'')
                (sampleConfig False True)) [],
           Merge (sampleTrack 120 0 ''Hello'') (sampleTrack 118 300 ''Konnichiwa'')
             (sampleConfig False True)), [])"
  by (simp add: createDualSubtitle_def sampleConfig_def sampleTrack_nonempty Let_def)

text \<open>The scenario: 120 English and 118 Japanese cues, no synchronization, prefixes: 238 cues.\<close>

theorem merge_preserves_cues_witness:
  "length (sampleTrack 120 0 ''Hello'') = 120 \<and> length (sampleTrack 118 300 ''Konnichiwa'') = 118
   \<and> length (Merge (sampleTrack 120 0 ''Hello'') (sampleTrack 118 300 ''Konnichiwa'')
               (sampleConfig False True)) = 238
   \<and> total_lines (details (dualResult ''Episode'' (sampleConfig False True)
         (sampleTrack 120 0 ''Hello'') (sampleTrack 118 300 ''Konnichiwa'')
         (Merge (sampleTrack 120 0 ''Hello'') (sampleTrack 118 300 ''Konnichiwa'')
            (sampleConfig False True)) [])) = 238"
  using merge_preserves_cues [of "sampleTrack 120 0 ''Hello''" "sampleTrack 118 300 ''Konnichiwa''"
      "sampleConfig False True" shiftingTool 120 "''Episode''" "[]"
      "dualResult ''Episode'' (sampleConfig False True) (sampleTrack 120 0 ''Hello'')
         (sampleTrack 118 300 ''Konnichiwa'')
         (Merge (sampleTrack 120 0 ''Hello'') (sampleTrack 118 300 ''Konnichiwa'')
            (sampleConfig False True)) []"
      "Merge (sampleTrack 120 0 ''Hello'') (sampleTrack 118 300 ''Konnichiwa'') (sampleConfig False True)"
      "[]"]
    scenario_created
  by (simp add: sampleTrack_length)

section \<open>Properties of the synchronization\<close>










section \<open>Properties of the bulk orchestrator\<close>

lemma steady_updateProgress:
  assumes "steady n st" and "processed (progress (job st)) \<le> processed p" and "total p = n"
  shows "steady n (updateProgress p st)"
  using assms
  by (auto simp: steady_def updateProgress_def sorted_append)

lemma steady_recordOutcome: "steady n (recordOutcome ep outcome st) = steady n st"
  by (simp add: steady_def recordOutcome_def Let_def)

lemma steady_finishJob: "steady n (finishJob terminal st) = steady n st"
  by (simp add: steady_def finishJob_def)

lemma progress_recordOutcome [simp]:
  "progress (job (recordOutcome ep outcome st)) = progress (job st)"
  by (simp add: recordOutcome_def Let_def)

lemma status_recordOutcome [simp]:
  "status (job (recordOutcome ep outcome st)) = status (job st)"
  by (simp add: recordOutcome_def Let_def)

lemma processed_updateProgress:
  "processed (progress (job (updateProgress p st))) =
     (if status (job st) = running then processed p else processed (progress (job st)))"
  by (simp add: updateProgress_def)

lemma bulkLoop_steady:
  "steady n st \<Longrightarrow> steady n (bulkLoop f c eps st)"
proof (induction eps arbitrary: st)
  case Nil
  then show ?case by (simp add: steady_finishJob)
next
  case (Cons ep rest)
  show ?case
  proof (cases "c (processed (progress (job st)))")
    case True
    with Cons.prems show ?thesis by (simp add: steady_finishJob)
  next
    case False
    let ?p = "(progress (job st))\<lparr>current_item := ep, processed := Suc (processed (progress (job st)))\<rparr>"
    have "steady n (recordOutcome ep (f ep) st)"
      using Cons.prems by (simp add: steady_recordOutcome)
    moreover have "total ?p = n"
      using Cons.prems by (simp add: steady_def)
    ultimately have "steady n (updateProgress ?p (recordOutcome ep (f ep) st))"
      by (intro steady_updateProgress) simp_all
    then have "steady n (bulkLoop f c rest (updateProgress ?p (recordOutcome ep (f ep) st)))"
      by (rule Cons.IH)
    with False show ?thesis by simp
  qed
qed

lemma bulkLoop_bound:
  "status (job st) = running \<Longrightarrow>
   processed (progress (job (bulkLoop f c eps st))) \<le> processed (progress (job st)) + length eps"
proof (induction eps arbitrary: st)
  case Nil
  then show ?case by (simp add: finishJob_def)
next
  case (Cons ep rest)
  show ?case
  proof (cases "c (processed (progress (job st)))")
    case True
    with Cons.prems show ?thesis by (simp add: finishJob_def)
  next
    case False
    let ?p = "(progress (job st))\<lparr>current_item := ep, processed := Suc (processed (progress (job st)))\<rparr>"
    let ?st = "updateProgress ?p (recordOutcome ep (f ep) st)"
    have run: "status (job ?st) = running"
      using Cons.prems by (simp add: updateProgress_def)
    have "processed (progress (job ?st)) = Suc (processed (progress (job st)))"
      using Cons.prems by (simp add: processed_updateProgress)
    with Cons.IH [OF run] False show ?thesis by simp
  qed
qed

lemma start_steady: "steady (length eps) (startJob (createBulkJob jid eps))"
  by (simp add: steady_def startJob_def createBulkJob_def updateProgress_def)

lemma start_running:
  "status (job (startJob (createBulkJob jid eps))) = running"
  "processed (progress (job (startJob (createBulkJob jid eps)))) = 0"
  by (simp_all add: startJob_def createBulkJob_def updateProgress_def)

text \<open>
  Claim C9. In the sequence of progress updates committed over a bulk job's lifetime the
  processed count never decreases, and in every update it is at most the total, which is
  the size of the worklist; the same holds of the job's final progress.
\<close>

theorem progress_monotone:
  "sorted (map processed (updates (runBulkJob f c jid eps)))
   \<and> (\<forall>u \<in> set (updates (runBulkJob f c jid eps)). processed u \<le> total u \<and> total u = length eps)
   \<and> processed (progress (job (runBulkJob f c jid eps))) \<le> total (progress (job (runBulkJob f c jid eps)))"
proof -
  let ?r = "runBulkJob f c jid eps"
  have st: "steady (length eps) ?r"
    unfolding runBulkJob_def by (rule bulkLoop_steady) (rule start_steady)
  have bound: "processed (progress (job ?r)) \<le> length eps"
    unfolding runBulkJob_def
    using bulkLoop_bound [of "startJob (createBulkJob jid eps)" f c eps] by (simp add: start_running)
  from st bound show ?thesis
    by (auto simp: steady_def)
qed

text \<open>
  A job over three episodes with a cancellation seen after the second one: the updates
  carry the processed counts 0, 1, 2 of a total of 3.
\<close>

theorem progress_monotone_witness:
  "map processed (updates (runBulkJob sampleProcess (\<lambda>n. n = 2) ''job'' [''1'', ''2'', ''3''])) = [0, 1, 2]
   \<and> map total (updates (runBulkJob sampleProcess (\<lambda>n. n = 2) ''job'' [''1'', ''2'', ''3''])) = [3, 3, 3]
   \<and> status (job (runBulkJob sampleProcess (\<lambda>n. n = 2) ''job'' [''1'', ''2'', ''3''])) = cancelled
   \<and> sorted (map processed (updates (runBulkJob sampleProcess (\<lambda>n. n = 2) ''job'' [''1'', ''2'', ''3''])))
   \<and> list_all (\<lambda>u. processed u \<le> total u)
         (updates (runBulkJob sampleProcess (\<lambda>n. n = 2) ''job'' [''1'', ''2'', ''3'']))"
proof -
  have "map processed (updates (runBulkJob sampleProcess (\<lambda>n. n = 2) ''job'' [''1'', ''2'', ''3''])) = [0, 1, 2]"
    and "map total (updates (runBulkJob sampleProcess (\<lambda>n. n = 2) ''job'' [''1'', ''2'', ''3''])) = [3, 3, 3]"
    and "status (job (runBulkJob sampleProcess (\<lambda>n. n = 2) ''job'' [''1'', ''2'', ''3''])) = cancelled"
    by (simp_all add: runBulkJob_def startJob_def createBulkJob_def updateProgress_def
        recordOutcome_def finishJob_def sampleProcess_def Let_def)
  then show ?thesis
    using progress_monotone [of sampleProcess "\<lambda>n. n = 2" "''job''" "[''1'', ''2'', ''3'']"]
    unfolding list_all_iff by blast
qed

end
